theory Spec2Isabelle
  imports Complex_Main "HOL-Library.Sublist"
begin

section \<open>JavaScript values\<close>

text \<open>
  The values the program handles: \<^verbatim>\<open>undefined\<close>, the JSON values, and BigInt (which a
  caller script may return and \<^verbatim>\<open>JSON.stringify\<close> refuses). A string is a list of code
  units (\<open>length\<close> is \<^verbatim>\<open>.length\<close>, \<open>take\<close> is \<^verbatim>\<open>.slice(0, n)\<close>); numbers are the
  integer-valued ones, printed in decimal. An object is the list of its own enumerable
  properties in the order of \<^verbatim>\<open>Object.entries\<close>, with distinct keys. Values are trees: a
  structure that contains itself is not among them.
\<close>

datatype jsvalue =
    JUndefined
  | JNull
  | JBool bool
  | JNum int
  | JBigInt int
  | JStr string
  | JArr "jsvalue list"
  | JObj "(string \<times> jsvalue) list"

text \<open>
  What a \<^verbatim>\<open>throw\<close> carries: an instance of \<^verbatim>\<open>Error\<close> (or of a subclass such as
  \<^verbatim>\<open>TypeError\<close>) with its message, or any other value. The \<^verbatim>\<open>stack\<close> of an error is
  engine-defined text that no function here reads; it is left out.
\<close>

datatype thrown = ErrorInst string | NonError jsvalue

type_synonym 'a or_throw = "thrown + 'a"

definition digit_char :: "nat \<Rightarrow> char" where
  "digit_char d = ''0123456789abcdef'' ! d"

fun show_nat :: "nat \<Rightarrow> string" where
  "show_nat n = (if n < 10 then [digit_char n] else show_nat (n div 10) @ [digit_char (n mod 10)])"

declare show_nat.simps [simp del]

definition show_int :: "int \<Rightarrow> string" where
  "show_int i = (if i < 0 then CHR ''-'' # show_nat (nat (- i)) else show_nat (nat i))"

text \<open>\<^verbatim>\<open>Array.prototype.join\<close> on an array of strings.\<close>

fun join :: "string \<Rightarrow> string list \<Rightarrow> string" where
  "join sep [] = []"
| "join sep [x] = x"
| "join sep (x # y # ys) = x @ sep @ join sep (y # ys)"

text \<open>
  \<^verbatim>\<open>String(v)\<close>, which is also what a template literal and \<^verbatim>\<open>+\<close> with a string operand
  apply to these values.
\<close>

fun ToString :: "jsvalue \<Rightarrow> string" where
  "ToString JUndefined = ''undefined''"
| "ToString JNull = ''null''"
| "ToString (JBool b) = (if b then ''true'' else ''false'')"
| "ToString (JNum i) = show_int i"
| "ToString (JBigInt i) = show_int i"
| "ToString (JStr s) = s"
| "ToString (JArr xs) =
     join '','' (map (\<lambda>x. if x = JUndefined \<or> x = JNull then [] else ToString x) xs)"
| "ToString (JObj kvs) = ''[object Object]''"

text \<open>The truthiness test of \<^verbatim>\<open>if (v)\<close>, \<^verbatim>\<open>!v\<close> and \<^verbatim>\<open>a && b\<close>.\<close>

fun truthy :: "jsvalue \<Rightarrow> bool" where
  "truthy JUndefined = False"
| "truthy JNull = False"
| "truthy (JBool b) = b"
| "truthy (JNum i) = (i \<noteq> 0)"
| "truthy (JBigInt i) = (i \<noteq> 0)"
| "truthy (JStr s) = (s \<noteq> [])"
| "truthy (JArr xs) = True"
| "truthy (JObj kvs) = True"

text \<open>\<^verbatim>\<open>s.includes(search)\<close>: \<open>search\<close> occurs in \<open>s\<close> as a contiguous run.\<close>

definition str_includes :: "string \<Rightarrow> string \<Rightarrow> bool" where
  "str_includes s search = sublist search s"

text \<open>
  Reading a property named by an identifier (\<^verbatim>\<open>v.success\<close>, \<^verbatim>\<open>v.id\<close>, \<^verbatim>\<open>v.message\<close>, ...):
  a \<^verbatim>\<open>TypeError\<close> on \<^verbatim>\<open>undefined\<close> and \<^verbatim>\<open>null\<close>, the own property of an object, the
  \<^verbatim>\<open>length\<close> of a string or an array, and \<^verbatim>\<open>undefined\<close> otherwise. The names the program
  reads are none of those that the built-in prototypes define.
\<close>

definition cannot_read :: "string \<Rightarrow> string \<Rightarrow> thrown" where
  "cannot_read what key =
     ErrorInst (''Cannot read properties of '' @ what @ '' (reading '' @ [CHR 0x27] @ key @ [CHR 0x27] @ '')'')"

fun get_prop :: "jsvalue \<Rightarrow> string \<Rightarrow> jsvalue or_throw" where
  "get_prop JUndefined key = Inl (cannot_read ''undefined'' key)"
| "get_prop JNull key = Inl (cannot_read ''null'' key)"
| "get_prop (JObj kvs) key = Inr (case map_of kvs key of None \<Rightarrow> JUndefined | Some v \<Rightarrow> v)"
| "get_prop (JStr s) key = Inr (if key = ''length'' then JNum (int (length s)) else JUndefined)"
| "get_prop (JArr xs) key = Inr (if key = ''length'' then JNum (int (length xs)) else JUndefined)"
| "get_prop v key = Inr JUndefined"

section \<open>\<^verbatim>\<open>JSON.stringify(value, null, 2)\<close>\<close>

definition hex4 :: "nat \<Rightarrow> string" where
  "hex4 n = [digit_char (n div 4096 mod 16), digit_char (n div 256 mod 16),
             digit_char (n div 16 mod 16), digit_char (n mod 16)]"

definition quote_char :: "char \<Rightarrow> string" where
  "quote_char c =
     (if c = CHR 0x22 then [CHR 0x5C, CHR 0x22]
      else if c = CHR 0x5C then [CHR 0x5C, CHR 0x5C]
      else if c = CHR 0x08 then [CHR 0x5C, CHR ''b'']
      else if c = CHR 0x09 then [CHR 0x5C, CHR ''t'']
      else if c = CHR 0x0A then [CHR 0x5C, CHR ''n'']
      else if c = CHR 0x0C then [CHR 0x5C, CHR ''f'']
      else if c = CHR 0x0D then [CHR 0x5C, CHR ''r'']
      else if (of_char c :: nat) < 32 then [CHR 0x5C, CHR ''u''] @ hex4 (of_char c)
      else [c])"

definition QuoteJSONString :: "string \<Rightarrow> string" where
  "QuoteJSONString s = [CHR 0x22] @ concat (map quote_char s) @ [CHR 0x22]"

text \<open>The first exception of a list of results, or all their values.\<close>

fun sequence :: "'a or_throw list \<Rightarrow> 'a list or_throw" where
  "sequence [] = Inr []"
| "sequence (Inl e # rs) = Inl e"
| "sequence (Inr x # rs) = (case sequence rs of Inl e \<Rightarrow> Inl e | Inr xs \<Rightarrow> Inr (x # xs))"

text \<open>
  The serialization of one value at the current indentation; \<open>gap\<close> is the indentation
  unit (two spaces for \<^verbatim>\<open>JSON.stringify(v, null, 2)\<close>, empty for \<^verbatim>\<open>JSON.stringify(v)\<close>).
  \<open>Inr None\<close> is the result \<^verbatim>\<open>undefined\<close>, which an array prints as \<^verbatim>\<open>null\<close> and an
  object leaves out with its key. A BigInt anywhere in the value throws.
\<close>

definition wrap_partial :: "string \<Rightarrow> string \<Rightarrow> string \<Rightarrow> string \<Rightarrow> string list \<Rightarrow> string" where
  "wrap_partial gap indent opening closing partial =
     (if partial = [] then opening @ closing
      else if gap = [] then opening @ join '','' partial @ closing
      else opening @ [CHR 0x0A] @ indent @ gap
           @ join ('','' @ [CHR 0x0A] @ indent @ gap) partial
           @ [CHR 0x0A] @ indent @ closing)"

fun SerializeJSONProperty :: "string \<Rightarrow> string \<Rightarrow> jsvalue \<Rightarrow> string option or_throw" where
  "SerializeJSONProperty gap indent JUndefined = Inr None"
| "SerializeJSONProperty gap indent JNull = Inr (Some ''null'')"
| "SerializeJSONProperty gap indent (JBool b) = Inr (Some (if b then ''true'' else ''false''))"
| "SerializeJSONProperty gap indent (JNum i) = Inr (Some (show_int i))"
| "SerializeJSONProperty gap indent (JBigInt i) =
     Inl (ErrorInst ''Do not know how to serialize a BigInt'')"
| "SerializeJSONProperty gap indent (JStr s) = Inr (Some (QuoteJSONString s))"
| "SerializeJSONProperty gap indent (JArr xs) =
     (case sequence (map (\<lambda>x. SerializeJSONProperty gap (indent @ gap) x) xs) of
        Inl e \<Rightarrow> Inl e
      | Inr rs \<Rightarrow>
          Inr (Some (wrap_partial gap indent ''['' '']''
                 (map (\<lambda>r. case r of None \<Rightarrow> ''null'' | Some s \<Rightarrow> s) rs))))"
| "SerializeJSONProperty gap indent (JObj kvs) =
     (case sequence (map (\<lambda>kv. SerializeJSONProperty gap (indent @ gap) (snd kv)) kvs) of
        Inl e \<Rightarrow> Inl e
      | Inr rs \<Rightarrow>
          Inr (Some (wrap_partial gap indent ''{'' ''}''
                 (concat (map (\<lambda>(k, r). case r of
                                   None \<Rightarrow> []
                                 | Some s \<Rightarrow> [QuoteJSONString k @ '':''
                                              @ (if gap = [] then [] else '' '') @ s])
                           (zip (map fst kvs) rs))))))"

text \<open>\<^verbatim>\<open>JSON.stringify(v, null, 2)\<close> and \<^verbatim>\<open>JSON.stringify(v)\<close>.\<close>

definition JSON_stringify :: "jsvalue \<Rightarrow> string option or_throw" where
  "JSON_stringify v = SerializeJSONProperty ''  '' [] v"

definition JSON_stringify_compact :: "jsvalue \<Rightarrow> string option or_throw" where
  "JSON_stringify_compact v = SerializeJSONProperty [] [] v"

section \<open>The response truncator (src/truncate.ts)\<close>

definition CHARS_PER_TOKEN :: nat where
  "CHARS_PER_TOKEN = 4"

definition MAX_TOKENS :: nat where
  "MAX_TOKENS = 6000"

definition MAX_CHARS :: nat where
  "MAX_CHARS = MAX_TOKENS * CHARS_PER_TOKEN"

text \<open>
  \<^verbatim>\<open>n.toLocaleString()\<close> of a non-negative integer in the runtime's default locale, en-US:
  the decimal digits in groups of three, separated by commas.
\<close>

fun group3 :: "string \<Rightarrow> string" where
  "group3 (a # b # c # d # rest) = a # b # c # CHR '','' # group3 (d # rest)"
| "group3 ds = ds"

definition toLocaleString :: "nat \<Rightarrow> string" where
  "toLocaleString n = rev (group3 (rev (show_nat n)))"

text \<open>\<^verbatim>\<open>typeof content === "string" ? content : JSON.stringify(content, null, 2)\<close>\<close>

definition serialized_text :: "jsvalue \<Rightarrow> string option or_throw" where
  "serialized_text content = (case content of JStr s \<Rightarrow> Inr (Some s) | _ \<Rightarrow> JSON_stringify content)"

definition truncation_marker :: "nat \<Rightarrow> string" where
  "truncation_marker estimatedTokens =
     [CHR 0x0A, CHR 0x0A] @ ''--- TRUNCATED ---'' @ [CHR 0x0A] @ ''Response was ~''
     @ toLocaleString estimatedTokens @ '' tokens (limit: '' @ toLocaleString MAX_TOKENS
     @ ''). Use more specific queries to reduce response size.''"

text \<open>
  \<^verbatim>\<open>truncateResponse\<close>. Where \<^verbatim>\<open>JSON.stringify\<close> returns \<^verbatim>\<open>undefined\<close>, reading
  \<^verbatim>\<open>text.length\<close> throws a \<^verbatim>\<open>TypeError\<close>.
\<close>

definition truncateResponse :: "jsvalue \<Rightarrow> string or_throw" where
  "truncateResponse content =
     (case serialized_text content of
        Inl e \<Rightarrow> Inl e
      | Inr None \<Rightarrow> Inl (cannot_read ''undefined'' ''length'')
      | Inr (Some text) \<Rightarrow>
          if length text \<le> MAX_CHARS then Inr text
          else (let truncated = take MAX_CHARS text;
                    estimatedTokens = nat \<lceil>real (length text) / real CHARS_PER_TOKEN\<rceil>
                in Inr (truncated @ truncation_marker estimatedTokens)))"

text \<open>A BigInt occurs in the value.\<close>

fun has_bigint :: "jsvalue \<Rightarrow> bool" where
  "has_bigint (JBigInt i) = True"
| "has_bigint (JArr xs) = list_ex has_bigint xs"
| "has_bigint (JObj kvs) = list_ex (\<lambda>kv. has_bigint (snd kv)) kvs"
| "has_bigint v = False"

section \<open>HTTP\<close>

text \<open>
  A request as \<^verbatim>\<open>fetch\<close> receives it: the address, the search parameters set on it,
  the method, the headers and the body (\<^verbatim>\<open>undefined\<close> for none). A response as
  the program reads it: the status, the \<^verbatim>\<open>content-type\<close> header (\<open>None\<close> when absent),
  the body as text, and what \<^verbatim>\<open>response.json()\<close> gives: the parsed body, or the exception
  of a body that does not parse. \<^verbatim>\<open>fetch\<close> itself is the environment's: a function from the
  request to the response, or to the exception of an address that does not parse or of a
  network failure.
\<close>

record http_request =
  req_url :: string
  req_search :: "(string \<times> string) list"
  req_method :: string
  req_headers :: "(string \<times> string) list"
  req_body :: jsvalue

record http_response =
  status :: nat
  content_type :: "string option"
  body_text :: string
  body_json :: "jsvalue or_throw"

type_synonym fetch = "http_request \<Rightarrow> http_response or_throw"

text \<open>\<^verbatim>\<open>response.ok\<close>\<close>

definition ok :: "http_response \<Rightarrow> bool" where
  "ok response = (200 \<le> status response \<and> status response \<le> 299)"

text \<open>\<^verbatim>\<open>response.headers.get("content-type") || ""\<close>\<close>

definition content_type_or_empty :: "http_response \<Rightarrow> string" where
  "content_type_or_empty response = (case content_type response of None \<Rightarrow> [] | Some h \<Rightarrow> h)"

text \<open>
  \<^verbatim>\<open>data.errors.map(e => e.code + ": " + e.message).join(", ")\<close>, and the same with a
  template literal in the account resolver.
\<close>

definition error_line :: "jsvalue \<Rightarrow> string or_throw" where
  "error_line e =
     (case get_prop e ''code'' of
        Inl x \<Rightarrow> Inl x
      | Inr c \<Rightarrow>
          (case get_prop e ''message'' of
             Inl x \<Rightarrow> Inl x
           | Inr m \<Rightarrow> Inr (ToString c @ '': '' @ ToString m)))"

definition error_lines :: "jsvalue \<Rightarrow> string or_throw" where
  "error_lines data =
     (case get_prop data ''errors'' of
        Inl x \<Rightarrow> Inl x
      | Inr errors \<Rightarrow>
          (case errors of
             JArr es \<Rightarrow>
               (case sequence (map error_line es) of
                  Inl x \<Rightarrow> Inl x
                | Inr ls \<Rightarrow> Inr (join '', '' ls))
           | JUndefined \<Rightarrow> Inl (cannot_read ''undefined'' ''map'')
           | JNull \<Rightarrow> Inl (cannot_read ''null'' ''map'')
           | _ \<Rightarrow> Inl (ErrorInst ''data.errors.map is not a function'')))"

section \<open>The account resolver (resolveAccountId)\<close>

text \<open>\<^verbatim>\<open>Array.isArray(v)\<close>\<close>

fun isArray :: "jsvalue \<Rightarrow> bool" where
  "isArray (JArr xs) = True"
| "isArray v = False"

text \<open>\<^verbatim>\<open>a ?? b\<close>\<close>

definition nullish_or :: "jsvalue \<Rightarrow> jsvalue \<Rightarrow> jsvalue" where
  "nullish_or a b = (if a = JUndefined \<or> a = JNull then b else a)"

text \<open>\<^verbatim>\<open>xs[0]?.id\<close>\<close>

definition first_id :: "jsvalue list \<Rightarrow> jsvalue" where
  "first_id xs =
     (case xs of
        [] \<Rightarrow> JUndefined
      | x # _ \<Rightarrow>
          if x = JUndefined \<or> x = JNull then JUndefined
          else (case get_prop x ''id'' of Inl _ \<Rightarrow> JUndefined | Inr v \<Rightarrow> v))"

text \<open>The callback of the summary: \<^verbatim>\<open>`${account.id ?? "unknown"} (${account.name ?? ""})`\<close>\<close>

definition account_summary :: "jsvalue \<Rightarrow> string or_throw" where
  "account_summary account =
     (case get_prop account ''id'' of
        Inl x \<Rightarrow> Inl x
      | Inr i \<Rightarrow>
          (case get_prop account ''name'' of
             Inl x \<Rightarrow> Inl x
           | Inr n \<Rightarrow>
               Inr (ToString (nullish_or i (JStr ''unknown'')) @ '' (''
                    @ ToString (nullish_or n (JStr [])) @ '')'')))"

text \<open>The request of the resolver: \<^verbatim>\<open>GET ${apiBase}/accounts\<close> with the credential.\<close>

definition accounts_request :: "string \<Rightarrow> string \<Rightarrow> http_request" where
  "accounts_request apiBase apiToken =
     \<lparr>req_url = apiBase @ ''/accounts'', req_search = [], req_method = ''GET'',
      req_headers = [(''Authorization'', ''Bearer '' @ apiToken)], req_body = JUndefined\<rparr>"

definition resolveAccountId :: "fetch \<Rightarrow> string \<Rightarrow> string \<Rightarrow> jsvalue or_throw" where
  "resolveAccountId fetch apiBase apiToken =
     (case fetch (accounts_request apiBase apiToken) of
        Inl x \<Rightarrow> Inl x
      | Inr response \<Rightarrow>
          if \<not> str_includes (content_type_or_empty response) ''application/json'' then
            Inl (ErrorInst (''Cloudflare API error: '' @ show_nat (status response) @ '' ''
                            @ body_text response))
          else
            (case body_json response of
               Inl x \<Rightarrow> Inl x
             | Inr data \<Rightarrow>
                 (case get_prop data ''success'' of
                    Inl x \<Rightarrow> Inl x
                  | Inr success \<Rightarrow>
                      if \<not> truthy success then
                        (case error_lines data of
                           Inl x \<Rightarrow> Inl x
                         | Inr errors \<Rightarrow> Inl (ErrorInst (''Cloudflare API error: '' @ errors)))
                      else
                        (case get_prop data ''result'' of
                           Inl x \<Rightarrow> Inl x
                         | Inr (JArr accounts) \<Rightarrow>
                             if length accounts = 0 then
                               Inl (ErrorInst ''No Cloudflare accounts found for this token.'')
                             else if length accounts = 1 \<and> truthy (first_id accounts) then
                               Inr (first_id accounts)
                             else
                               (case sequence (map account_summary (take 5 accounts)) of
                                  Inl x \<Rightarrow> Inl x
                                | Inr accountSummary \<Rightarrow>
                                    Inl (ErrorInst
                                      (''Multiple Cloudflare accounts found. Provide account_id to select one. ''
                                       @ ''Found: '' @ join '', '' accountSummary)))
                         | Inr _ \<Rightarrow>
                             Inl (ErrorInst ''No Cloudflare accounts found for this token.'')))))"

section \<open>The execution unit (the module of src/executor.ts)\<close>

definition unlines :: "string list \<Rightarrow> string" where
  "unlines ls = join [CHR 0x0A] ls"

text \<open>
  The text of the module \<^verbatim>\<open>worker.js\<close>, line by line, in the four pieces that the three
  interpolations of the template leave.
\<close>

definition module_head :: string where
  \<open>module_head = unlines
    ['''',
     ''import { WorkerEntrypoint } from "cloudflare:workers";'',
     '''',
     ''const apiBase = '']\<close>

definition module_between :: string where
  \<open>module_between = unlines
    ['';'',
     ''const accountId = '']\<close>

definition module_body :: string where
  \<open>module_body = unlines
    ['';'',
     '''',
     ''export default class CodeExecutor extends WorkerEntrypoint {'',
     ''  async evaluate(apiToken) {'',
     ''    const cloudflare = {'',
     ''      async request(options) {'',
     ''        const { method, path, query, body, contentType, rawBody } = options;'',
     '''',
     ''        const url = new URL(apiBase + path);'',
     ''        if (query) {'',
     ''          for (const [key, value] of Object.entries(query)) {'',
     ''            if (value !== undefined) {'',
     ''              url.searchParams.set(key, String(value));'',
     ''            }'',
     ''          }'',
     ''        }'',
     '''',
     ''        const headers = {'',
     ''          "Authorization": "Bearer " + apiToken,'',
     ''        };'',
     '''',
     ''        if (contentType) {'',
     ''          headers["Content-Type"] = contentType;'',
     ''        } else if (body && !rawBody) {'',
     ''          headers["Content-Type"] = "application/json";'',
     ''        }'',
     '''',
     ''        let requestBody;'',
     ''        if (rawBody) {'',
     ''          requestBody = body;'',
     ''        } else if (body) {'',
     ''          requestBody = JSON.stringify(body);'',
     ''        }'',
     '''',
     ''        const response = await fetch(url.toString(), {'',
     ''          method,'',
     ''          headers,'',
     ''          body: requestBody,'',
     ''        });'',
     '''',
     ''        const responseContentType = response.headers.get("content-type") || "";'',
     '''',
     ''        // Handle non-JSON responses (e.g., KV values)'',
     ''        if (!responseContentType.includes("application/json")) {'',
     ''          const text = await response.text();'',
     ''          if (!response.ok) {'',
     ''            throw new Error("Cloudflare API error: " + response.status + " " + text);'',
     ''          }'',
     ''          return { success: true, result: text };'',
     ''        }'',
     '''',
     ''        const data = await response.json();'',
     '''',
     ''        if (!data.success) {'',
     ''          const errors = data.errors.map(e => e.code + ": " + e.message).join(", ");'',
     ''          throw new Error("Cloudflare API error: " + errors);'',
     ''        }'',
     '''',
     ''        return data;'',
     ''      }'',
     ''    };'',
     '''',
     ''    try {'',
     ''      const result = await ('']\<close>

definition module_tail :: string where
  \<open>module_tail = unlines
    ['')();'',
     ''      return { result, err: undefined };'',
     ''    } catch (err) {'',
     ''      return { result: undefined, err: err.message, stack: err.stack };'',
     ''    }'',
     ''  }'',
     ''}'',
     ''        '']\<close>

text \<open>
  \<^verbatim>\<open>${JSON.stringify(v)}\<close> inside the template: the serialization, the text
  \<^verbatim>\<open>undefined\<close> where there is none, or the exception of \<^verbatim>\<open>JSON.stringify\<close>.
\<close>

definition interpolate_json :: "jsvalue \<Rightarrow> string or_throw" where
  "interpolate_json v =
     (case JSON_stringify_compact v of
        Inl x \<Rightarrow> Inl x
      | Inr None \<Rightarrow> Inr ''undefined''
      | Inr (Some s) \<Rightarrow> Inr s)"

definition module_source :: "jsvalue \<Rightarrow> jsvalue \<Rightarrow> string \<Rightarrow> string or_throw" where
  "module_source apiBase accountId code =
     (case interpolate_json apiBase of
        Inl x \<Rightarrow> Inl x
      | Inr base \<Rightarrow>
          (case interpolate_json accountId of
             Inl x \<Rightarrow> Inl x
           | Inr account \<Rightarrow>
               Inr (module_head @ base @ module_between @ account @ module_body @ code
                    @ module_tail)))"

text \<open>
  The behaviour of the module's code. The options of \<^verbatim>\<open>cloudflare.request\<close> have the
  types of the interface \<^verbatim>\<open>CloudflareRequestOptions\<close>; an absent field is \<open>None\<close>, an
  absent body \<^verbatim>\<open>undefined\<close>, an absent flag false.
\<close>

record request_options =
  opt_method :: string
  opt_path :: string
  opt_query :: "(string \<times> jsvalue) list option"
  opt_body :: jsvalue
  opt_contentType :: "string option"
  opt_rawBody :: bool

definition search_params :: "request_options \<Rightarrow> (string \<times> string) list" where
  "search_params options =
     (case opt_query options of
        None \<Rightarrow> []
      | Some query \<Rightarrow> map (\<lambda>kv. (fst kv, ToString (snd kv))) (filter (\<lambda>kv. snd kv \<noteq> JUndefined) query))"

definition request_headers :: "string \<Rightarrow> request_options \<Rightarrow> (string \<times> string) list" where
  "request_headers apiToken options =
     (''Authorization'', ''Bearer '' @ apiToken) #
     (case opt_contentType options of
        Some contentType \<Rightarrow>
          if contentType \<noteq> [] then [(''Content-Type'', contentType)]
          else if truthy (opt_body options) \<and> \<not> opt_rawBody options
               then [(''Content-Type'', ''application/json'')] else []
      | None \<Rightarrow>
          if truthy (opt_body options) \<and> \<not> opt_rawBody options
          then [(''Content-Type'', ''application/json'')] else [])"

definition request_body :: "request_options \<Rightarrow> jsvalue or_throw" where
  "request_body options =
     (if opt_rawBody options then Inr (opt_body options)
      else if truthy (opt_body options) then
        (case JSON_stringify_compact (opt_body options) of
           Inl x \<Rightarrow> Inl x
         | Inr None \<Rightarrow> Inr JUndefined
         | Inr (Some s) \<Rightarrow> Inr (JStr s))
      else Inr JUndefined)"

text \<open>What \<^verbatim>\<open>request\<close> does with the response, from the content type on.\<close>

definition read_response :: "http_response \<Rightarrow> jsvalue or_throw" where
  "read_response response =
     (if \<not> str_includes (content_type_or_empty response) ''application/json'' then
        (if \<not> ok response then
           Inl (ErrorInst (''Cloudflare API error: '' @ show_nat (status response) @ '' ''
                           @ body_text response))
         else Inr (JObj [(''success'', JBool True), (''result'', JStr (body_text response))]))
      else
        (case body_json response of
           Inl x \<Rightarrow> Inl x
         | Inr data \<Rightarrow>
             (case get_prop data ''success'' of
                Inl x \<Rightarrow> Inl x
              | Inr success \<Rightarrow>
                  if \<not> truthy success then
                    (case error_lines data of
                       Inl x \<Rightarrow> Inl x
                     | Inr errors \<Rightarrow> Inl (ErrorInst (''Cloudflare API error: '' @ errors)))
                  else Inr data)))"

text \<open>
  What the unit's code takes from its runtime: \<^verbatim>\<open>new URL(s)\<close>, which gives the address
  (as \<^verbatim>\<open>url.toString()\<close> prints it, before the search parameters) or throws on a text
  that is no address, and \<^verbatim>\<open>fetch\<close>.
\<close>

record runtime =
  new_URL :: "string \<Rightarrow> string or_throw"
  rt_fetch :: fetch

text \<open>
  The request that \<^verbatim>\<open>cloudflare.request(options)\<close> passes to \<^verbatim>\<open>fetch\<close>, with the module's
  \<^verbatim>\<open>apiBase\<close> and the credential that \<^verbatim>\<open>evaluate\<close> received; or the exception of the
  address, or of encoding the body.
\<close>

definition outgoing :: "runtime \<Rightarrow> jsvalue \<Rightarrow> string \<Rightarrow> request_options \<Rightarrow> http_request or_throw" where
  "outgoing rt apiBase apiToken options =
     (case new_URL rt (ToString apiBase @ opt_path options) of
        Inl x \<Rightarrow> Inl x
      | Inr url \<Rightarrow>
          (case request_body options of
             Inl x \<Rightarrow> Inl x
           | Inr requestBody \<Rightarrow>
               Inr \<lparr>req_url = url,
                    req_search = search_params options,
                    req_method = opt_method options,
                    req_headers = request_headers apiToken options,
                    req_body = requestBody\<rparr>))"

text \<open>\<^verbatim>\<open>cloudflare.request(options)\<close>\<close>

definition request :: "runtime \<Rightarrow> jsvalue \<Rightarrow> string \<Rightarrow> request_options \<Rightarrow> jsvalue or_throw" where
  "request rt apiBase apiToken options =
     (case outgoing rt apiBase apiToken options of
        Inl x \<Rightarrow> Inl x
      | Inr req \<Rightarrow>
          (case rt_fetch rt req of
             Inl x \<Rightarrow> Inl x
           | Inr response \<Rightarrow> read_response response))"

text \<open>
  A caller script is the body of \<^verbatim>\<open>(${code})()\<close>: given the names in scope (the two
  constants of the module, the parameter of \<^verbatim>\<open>evaluate\<close> and the \<^verbatim>\<open>cloudflare\<close> object), it
  returns a value or throws. A script that never settles is outside this model.
\<close>

record scope =
  sc_apiBase :: jsvalue
  sc_accountId :: jsvalue
  sc_apiToken :: string
  sc_request :: "request_options \<Rightarrow> jsvalue or_throw"

type_synonym script = "scope \<Rightarrow> jsvalue or_throw"

text \<open>The record that \<^verbatim>\<open>evaluate\<close> returns (without the \<^verbatim>\<open>stack\<close>).\<close>

record eval_response =
  result :: jsvalue
  err :: jsvalue

text \<open>\<^verbatim>\<open>err.message\<close> of the value caught.\<close>

definition message_of :: "thrown \<Rightarrow> jsvalue or_throw" where
  "message_of e = (case e of ErrorInst m \<Rightarrow> Inr (JStr m) | NonError v \<Rightarrow> get_prop v ''message'')"

definition evaluate :: "runtime \<Rightarrow> jsvalue \<Rightarrow> jsvalue \<Rightarrow> script \<Rightarrow> string \<Rightarrow> eval_response or_throw" where
  "evaluate rt apiBase accountId body apiToken =
     (case body \<lparr>sc_apiBase = apiBase, sc_accountId = accountId, sc_apiToken = apiToken,
                 sc_request = request rt apiBase apiToken\<rparr> of
        Inr r \<Rightarrow> Inr \<lparr>result = r, err = JUndefined\<rparr>
      | Inl e \<Rightarrow>
          (case message_of e of
             Inl x \<Rightarrow> Inl x
           | Inr m \<Rightarrow> Inr \<lparr>result = JUndefined, err = m\<rparr>))"

section \<open>The gateway (createCodeExecutor)\<close>

record worker_code =
  compatibilityDate :: string
  compatibilityFlags :: "string list"
  mainModule :: string
  modules :: "(string \<times> string) list"

text \<open>
  The environment: the configured API base and the provisioning capability. \<open>LOADER\<close>
  takes the identity of the unit and its build recipe and gives the unit's
  \<^verbatim>\<open>evaluate\<close>: a function from the argument of the call to the record it returns, or to
  the exception of the provisioning or of the call.
\<close>

record env =
  CLOUDFLARE_API_BASE :: jsvalue
  LOADER :: "string \<Rightarrow> worker_code \<Rightarrow> string \<Rightarrow> eval_response or_throw"

text \<open>What the gateway hands over: the two arguments of \<^verbatim>\<open>LOADER.get\<close> and the argument
  of \<^verbatim>\<open>evaluate\<close>.\<close>

record submission =
  workerId :: string
  recipe :: "worker_code or_throw"
  evaluate_arg :: string

definition build_recipe :: "jsvalue \<Rightarrow> jsvalue \<Rightarrow> string \<Rightarrow> worker_code or_throw" where
  "build_recipe apiBase accountId code =
     (case module_source apiBase accountId code of
        Inl x \<Rightarrow> Inl x
      | Inr source \<Rightarrow>
          Inr \<lparr>compatibilityDate = ''2026-01-12'', compatibilityFlags = [''nodejs_compat''],
               mainModule = ''worker.js'', modules = [(''worker.js'', source)]\<rparr>)"

text \<open>\<open>uuid\<close> is the value of \<^verbatim>\<open>crypto.randomUUID()\<close> at this call.\<close>

definition submit :: "env \<Rightarrow> string \<Rightarrow> string \<Rightarrow> jsvalue \<Rightarrow> string \<Rightarrow> submission" where
  "submit e uuid code accountId apiToken =
     \<lparr>workerId = ''cloudflare-api-'' @ uuid,
      recipe = build_recipe (CLOUDFLARE_API_BASE e) accountId code,
      evaluate_arg = apiToken\<rparr>"

definition executeCode :: "env \<Rightarrow> string \<Rightarrow> string \<Rightarrow> jsvalue \<Rightarrow> string \<Rightarrow> jsvalue or_throw" where
  "executeCode e uuid code accountId apiToken =
     (let s = submit e uuid code accountId apiToken in
      case recipe s of
        Inl x \<Rightarrow> Inl x
      | Inr wc \<Rightarrow>
          (case LOADER e (workerId s) wc (evaluate_arg s) of
             Inl x \<Rightarrow> Inl x
           | Inr response \<Rightarrow>
               if truthy (err response) then Inl (ErrorInst (ToString (err response)))
               else Inr (result response)))"

section \<open>The execute tool (createServer)\<close>

record tool_result =
  content_text :: string
  isError :: bool

definition formatError :: "thrown \<Rightarrow> string" where
  "formatError error = (case error of ErrorInst message \<Rightarrow> message | NonError v \<Rightarrow> ToString v)"

text \<open>The \<^verbatim>\<open>try\<close>/\<^verbatim>\<open>catch\<close> of a handler around the text it computes.\<close>

definition tool_reply :: "string or_throw \<Rightarrow> tool_result" where
  "tool_reply r =
     (case r of
        Inr t \<Rightarrow> \<lparr>content_text = t, isError = False\<rparr>
      | Inl error \<Rightarrow> \<lparr>content_text = ''Error: '' @ formatError error, isError = True\<rparr>)"

text \<open>Account token mode: the account id is fixed.\<close>

definition execute_fixed :: "env \<Rightarrow> string \<Rightarrow> string \<Rightarrow> string \<Rightarrow> string \<Rightarrow> tool_result" where
  "execute_fixed e uuid apiToken accountId code =
     tool_reply
       (case executeCode e uuid code (JStr accountId) apiToken of
          Inl x \<Rightarrow> Inl x
        | Inr r \<Rightarrow> truncateResponse r)"

text \<open>
  User token mode:
  \<^verbatim>\<open>account_id ?? (apiBase ? await resolveAccountId(apiBase, apiToken) : undefined)\<close>.
\<close>

definition resolvedAccountId :: "env \<Rightarrow> fetch \<Rightarrow> string \<Rightarrow> string option \<Rightarrow> jsvalue or_throw" where
  "resolvedAccountId e fetch apiToken account_id =
     (case account_id of
        Some a \<Rightarrow> Inr (JStr a)
      | None \<Rightarrow>
          if truthy (CLOUDFLARE_API_BASE e)
          then resolveAccountId fetch (ToString (CLOUDFLARE_API_BASE e)) apiToken
          else Inr JUndefined)"

definition execute_auto :: "env \<Rightarrow> fetch \<Rightarrow> string \<Rightarrow> string \<Rightarrow> string \<Rightarrow> string option \<Rightarrow> tool_result" where
  "execute_auto e fetch uuid apiToken code account_id =
     tool_reply
       (case resolvedAccountId e fetch apiToken account_id of
          Inl x \<Rightarrow> Inl x
        | Inr a \<Rightarrow>
            if \<not> truthy a then
              Inl (ErrorInst ''Cloudflare API base is missing; provide account_id explicitly.'')
            else
              (case executeCode e uuid code a apiToken of
                 Inl x \<Rightarrow> Inl x
               | Inr r \<Rightarrow> truncateResponse r))"

text \<open>\<^verbatim>\<open>createServer(env, apiToken, accountId?)\<close> registers one of the two.\<close>

definition execute_tool ::
  "env \<Rightarrow> fetch \<Rightarrow> string \<Rightarrow> string option \<Rightarrow> string \<Rightarrow> string \<Rightarrow> string option \<Rightarrow> tool_result" where
  "execute_tool e fetch apiToken accountId uuid code account_id =
     (case accountId of
        Some a \<Rightarrow>
          if a \<noteq> [] then execute_fixed e uuid apiToken a code
          else execute_auto e fetch uuid apiToken code account_id
      | None \<Rightarrow> execute_auto e fetch uuid apiToken code account_id)"


section \<open>Example inputs\<close>

text \<open>A JSON response with status 200, and the \<^verbatim>\<open>fetch\<close> that answers every request with
  one response.\<close>

definition json_reply :: "jsvalue \<Rightarrow> http_response" where
  "json_reply data =
     \<lparr>status = 200, content_type = Some ''application/json'', body_text = [], body_json = Inr data\<rparr>"

definition answering :: "http_response \<Rightarrow> fetch" where
  "answering response = (\<lambda>req. Inr response)"

text \<open>An account as the upstream lists it, and the envelope of a successful listing.\<close>

definition account :: "string \<Rightarrow> string \<Rightarrow> jsvalue" where
  "account i n = JObj [(''id'', JStr i), (''name'', JStr n)]"

definition accounts_envelope :: "jsvalue list \<Rightarrow> jsvalue" where
  "accounts_envelope accounts =
     JObj [(''success'', JBool True), (''errors'', JArr []), (''messages'', JArr []),
           (''result'', JArr accounts)]"

text \<open>A provisioning capability whose unit runs the module with a script of behaviour
  \<open>body\<close>, whatever the text of the script.\<close>

definition unit_env :: "jsvalue \<Rightarrow> runtime \<Rightarrow> jsvalue \<Rightarrow> script \<Rightarrow> env" where
  "unit_env apiBase rt accountId body =
     \<lparr>CLOUDFLARE_API_BASE = apiBase, LOADER = (\<lambda>wid wc. evaluate rt apiBase accountId body)\<rparr>"

text \<open>A runtime in which every text is an address and every request gets one response.\<close>

definition serving :: "http_response \<Rightarrow> runtime" where
  "serving response = \<lparr>new_URL = Inr, rt_fetch = answering response\<rparr>"

text \<open>A plain-text response, a request for one path with no options, and the upstream's
  answer to a bad credential.\<close>

definition text_reply :: "nat \<Rightarrow> string \<Rightarrow> http_response" where
  "text_reply code body =
     \<lparr>status = code, content_type = Some ''text/plain'', body_text = body,
      body_json = Inl (ErrorInst ''Unexpected token'')\<rparr>"

definition get_options :: "string \<Rightarrow> request_options" where
  "get_options path =
     \<lparr>opt_method = ''GET'', opt_path = path, opt_query = None, opt_body = JUndefined,
      opt_contentType = None, opt_rawBody = False\<rparr>"

definition auth_failure :: http_response where
  "auth_failure =
     \<lparr>status = 403, content_type = Some ''application/json'', body_text = [],
      body_json = Inr (JObj [(''success'', JBool False),
                             (''errors'', JArr [JObj [(''code'', JNum 10000),
                                                       (''message'', JStr ''Authentication error'')]])])\<rparr>"

section \<open>The reference resolver (resolveRefs of scripts/build-spec.ts)\<close>

text \<open>\<^verbatim>\<open>s.replace(pat, rep)\<close> with a string pattern: the first occurrence only.\<close>

fun replace_first :: "string \<Rightarrow> string \<Rightarrow> string \<Rightarrow> string" where
  "replace_first pat rep [] = (if pat = [] then rep else [])"
| "replace_first pat rep (c # cs) =
     (if prefix pat (c # cs) then rep @ drop (length pat) (c # cs)
      else c # replace_first pat rep cs)"

text \<open>\<^verbatim>\<open>s.split(sep)\<close> with a separator of one character.\<close>

fun split_char :: "char \<Rightarrow> string \<Rightarrow> string list" where
  "split_char sep [] = [[]]"
| "split_char sep (c # cs) =
     (if c = sep then [] # split_char sep cs
      else (case split_char sep cs of [] \<Rightarrow> [[c]] | p # ps \<Rightarrow> (c # p) # ps))"

text \<open>
  \<^verbatim>\<open>resolved?.[part]\<close>: the own property of an object; on an array or a string the
  element whose index \<open>part\<close> spells in decimal, or the \<^verbatim>\<open>length\<close>; \<^verbatim>\<open>undefined\<close> on
  anything else, \<^verbatim>\<open>undefined\<close> and \<^verbatim>\<open>null\<close> included. A segment that names a property of
  a built-in prototype is outside this model, and so is a key \<^verbatim>\<open>__proto__\<close>.
\<close>

definition index_of :: "string \<Rightarrow> nat \<Rightarrow> nat option" where
  "index_of part len = find (\<lambda>i. show_nat i = part) [0..<len]"

fun lookup_part :: "jsvalue \<Rightarrow> string \<Rightarrow> jsvalue" where
  "lookup_part (JObj kvs) part = (case map_of kvs part of None \<Rightarrow> JUndefined | Some v \<Rightarrow> v)"
| "lookup_part (JArr xs) part =
     (if part = ''length'' then JNum (int (length xs))
      else case index_of part (length xs) of None \<Rightarrow> JUndefined | Some i \<Rightarrow> xs ! i)"
| "lookup_part (JStr s) part =
     (if part = ''length'' then JNum (int (length s))
      else case index_of part (length s) of None \<Rightarrow> JUndefined | Some i \<Rightarrow> JStr [s ! i])"
| "lookup_part v part = JUndefined"

text \<open>The loop \<^verbatim>\<open>for (const part of parts) resolved = resolved?.[part]\<close> from the root.\<close>

definition walk :: "jsvalue \<Rightarrow> string list \<Rightarrow> jsvalue" where
  "walk spec parts = foldl lookup_part spec parts"

text \<open>\<^verbatim>\<open>'$ref' in record && typeof record.$ref === 'string'\<close>, with the pointer.\<close>

definition ref_of :: "(string \<times> jsvalue) list \<Rightarrow> string option" where
  "ref_of kvs = (case map_of kvs ''$ref'' of Some (JStr ref) \<Rightarrow> Some ref | _ \<Rightarrow> None)"

text \<open>The pointers of the reference nodes of a value: the measure of the recursion below.\<close>

fun refs_of :: "jsvalue \<Rightarrow> string set" where
  "refs_of (JArr xs) = (\<Union>x \<in> set xs. refs_of x)"
| "refs_of (JObj kvs) = set_option (ref_of kvs) \<union> (\<Union>kv \<in> set kvs. refs_of (snd kv))"
| "refs_of v = {}"

text \<open>The sentinel \<^verbatim>\<open>{ $circular: ref }\<close>.\<close>

definition circular :: "string \<Rightarrow> jsvalue" where
  "circular ref = JObj [(''$circular'', JStr ref)]"

text \<open>\<^verbatim>\<open>ref.replace('#/', '').split('/')\<close>\<close>

definition pointer_parts :: "string \<Rightarrow> string list" where
  "pointer_parts ref = split_char CHR ''/'' (replace_first ''#/'' [] ref)"

text \<open>How many pointers, of the document or of \<open>rs\<close>, are not in the set yet.\<close>

definition pending :: "jsvalue \<Rightarrow> string set \<Rightarrow> string set \<Rightarrow> nat" where
  "pending spec rs seen = card ((refs_of spec \<union> rs) - seen)"

text \<open>
  \<^verbatim>\<open>resolveRefs(obj, spec, seen)\<close>. The set \<open>seen\<close> is one mutable object shared by
  all the calls of a traversal: each function takes it and returns it with the value.
  \<open>resolveItems\<close> is the \<^verbatim>\<open>obj.map\<close> over an array, \<open>resolveEntries\<close> the loop over
  \<^verbatim>\<open>Object.entries(record)\<close>.
\<close>

function (sequential)
  resolveRefs :: "jsvalue \<Rightarrow> jsvalue \<Rightarrow> string set \<Rightarrow> jsvalue \<times> string set" and
  resolveItems :: "jsvalue list \<Rightarrow> jsvalue \<Rightarrow> string set \<Rightarrow> jsvalue list \<times> string set" and
  resolveEntries :: "(string \<times> jsvalue) list \<Rightarrow> jsvalue \<Rightarrow> string set \<Rightarrow> (string \<times> jsvalue) list \<times> string set"
where
  "resolveRefs (JArr xs) spec seen =
     (case resolveItems xs spec seen of (ys, seen') \<Rightarrow> (JArr ys, seen'))"
| "resolveRefs (JObj kvs) spec seen =
     (case ref_of kvs of
        Some ref \<Rightarrow>
          if ref \<in> seen then (circular ref, seen)
          else resolveRefs (walk spec (pointer_parts ref)) spec (insert ref seen)
      | None \<Rightarrow> (case resolveEntries kvs spec seen of (es, seen') \<Rightarrow> (JObj es, seen')))"
| "resolveRefs v spec seen = (v, seen)"
| "resolveItems [] spec seen = ([], seen)"
| "resolveItems (x # xs) spec seen =
     (case resolveRefs x spec seen of (y, seen1) \<Rightarrow>
        case resolveItems xs spec seen1 of (ys, seen2) \<Rightarrow> (y # ys, seen2))"
| "resolveEntries [] spec seen = ([], seen)"
| "resolveEntries ((key, v) # kvs) spec seen =
     (case resolveRefs v spec seen of (y, seen1) \<Rightarrow>
        case resolveEntries kvs spec seen1 of (es, seen2) \<Rightarrow> ((key, y) # es, seen2))"
  by pat_completeness auto


lemma seen_mono:
  "resolveRefs_resolveItems_resolveEntries_dom (Inl (obj, spec, seen)) \<Longrightarrow> seen \<subseteq> snd (resolveRefs obj spec seen)"
  "resolveRefs_resolveItems_resolveEntries_dom (Inr (Inl (xs, spec, seen))) \<Longrightarrow> seen \<subseteq> snd (resolveItems xs spec seen)"
  "resolveRefs_resolveItems_resolveEntries_dom (Inr (Inr (kvs, spec, seen))) \<Longrightarrow> seen \<subseteq> snd (resolveEntries kvs spec seen)"
  by (induct rule: resolveRefs_resolveItems_resolveEntries.pinduct)
     (fastforce simp: resolveRefs.psimps resolveItems.psimps resolveEntries.psimps
        split: prod.splits option.splits)+

lemma refs_lookup_part: "refs_of (lookup_part v part) \<subseteq> refs_of v"
proof (cases v)
  case (JArr xs)
  then show ?thesis
    using nth_mem by (fastforce simp: index_of_def find_Some_iff split: option.splits)
next
  case (JObj kvs)
  then show ?thesis
    by (fastforce split: option.splits dest!: map_of_SomeD)
qed (auto split: option.splits)

lemma refs_walk: "refs_of (walk v parts) \<subseteq> refs_of v"
  unfolding walk_def
proof (induction parts arbitrary: v)
  case Nil
  then show ?case by simp
next
  case (Cons p ps)
  have "refs_of (foldl lookup_part (lookup_part v p) ps) \<subseteq> refs_of (lookup_part v p)"
    by (rule Cons.IH)
  also have "\<dots> \<subseteq> refs_of v" by (rule refs_lookup_part)
  finally show ?case by simp
qed

lemma finite_refs_of: "finite (refs_of v)"
proof (induction v rule: refs_of.induct)
  case (2 kvs)
  have "finite (set_option (ref_of kvs))" by (cases "ref_of kvs") simp_all
  with 2 show ?case by auto
qed auto


lemma pending_mono:
  assumes "finite rs'" "rs \<subseteq> refs_of spec \<union> rs'" "seen \<subseteq> seen'"
  shows "pending spec rs seen' \<le> pending spec rs' seen"
  unfolding pending_def
  by (rule card_mono) (use assms finite_refs_of in auto)

lemma pending_less:
  assumes "finite rs'" "rs \<subseteq> refs_of spec \<union> rs'" "r \<in> rs'" "r \<notin> seen"
  shows "pending spec rs (insert r seen) < pending spec rs' seen"
  unfolding pending_def
  by (rule psubset_card_mono) (use assms finite_refs_of in auto)

lemma finite_refs_items: "finite (\<Union>x \<in> set xs. refs_of x)"
  by (simp add: finite_refs_of)

lemma finite_refs_entries: "finite (\<Union>kv \<in> set kvs. refs_of (snd kv))"
  by (simp add: finite_refs_of)

lemma lex_le_less: "a' \<le> a \<Longrightarrow> b' < b \<Longrightarrow> ((a', b'), (a, b)) \<in> less_than <*lex*> less_than"
  by auto

lemma lex_less: "a' < a \<Longrightarrow> ((a', b'), (a, b)) \<in> less_than <*lex*> less_than"
  by auto

text \<open>
  Every call of the resolver ends: from any value, document and set, the calls it makes
  form a well-founded tree. A call on a reference node whose pointer is not in the set
  adds the pointer, and the pointers of a document are finitely many; every other call
  goes to a smaller value, with a set that has not lost a pointer.
\<close>

lemma resolveRefs_all_dom: "All resolveRefs_resolveItems_resolveEntries_dom"
proof (relation "inv_image (less_than <*lex*> less_than)
     (\<lambda>a. case a of
         Inl (obj, spec, seen) \<Rightarrow> (pending spec (refs_of obj) seen, size obj)
       | Inr (Inl (xs, spec, seen)) \<Rightarrow> (pending spec (\<Union>x \<in> set xs. refs_of x) seen, size_list size xs)
       | Inr (Inr (kvs, spec, seen)) \<Rightarrow> (pending spec (\<Union>kv \<in> set kvs. refs_of (snd kv)) seen, size_list (\<lambda>kv. size (snd kv)) kvs))", goal_cases)
  case 1
  show ?case by auto
next
  case (2 xs spec seen)
  have "pending spec (\<Union>x \<in> set xs. refs_of x) seen \<le> pending spec (refs_of (JArr xs)) seen"
    by (rule pending_mono) (auto simp: finite_refs_of)
  then show ?case by (auto intro: lex_le_less)
next
  case (3 kvs spec seen)
  have "pending spec (\<Union>kv \<in> set kvs. refs_of (snd kv)) seen \<le> pending spec (refs_of (JObj kvs)) seen"
    by (rule pending_mono) (auto simp: finite_refs_of)
  moreover have "size_list (\<lambda>kv. size (snd kv)) kvs < size (JObj kvs)"
    by (induction kvs) auto
  ultimately show ?case by (auto intro: lex_le_less)
next
  case (4 kvs spec seen ref)
  have "pending spec (refs_of (walk spec (pointer_parts ref))) (insert ref seen)
        < pending spec (refs_of (JObj kvs)) seen"
    by (rule pending_less) (use 4 refs_walk in \<open>auto simp: finite_refs_of\<close>)
  then show ?case by (auto intro: lex_less)
next
  case (5 x xs spec seen)
  have "pending spec (refs_of x) seen \<le> pending spec (\<Union>x \<in> set (x # xs). refs_of x) seen"
    by (rule pending_mono) (auto simp: finite_refs_of)
  then show ?case by (auto intro: lex_le_less)
next
  case (6 x xs spec seen y seen1)
  then have "seen \<subseteq> seen1" using seen_mono(1)[of x spec seen] by (metis snd_conv)
  then have "pending spec (\<Union>x \<in> set xs. refs_of x) seen1 \<le> pending spec (\<Union>x \<in> set (x # xs). refs_of x) seen"
    by (intro pending_mono) (auto simp: finite_refs_of)
  then show ?case by (auto intro: lex_le_less)
next
  case (7 key v kvs spec seen)
  have "pending spec (refs_of v) seen \<le> pending spec (\<Union>kv \<in> set ((key, v) # kvs). refs_of (snd kv)) seen"
    by (rule pending_mono) (auto simp: finite_refs_of)
  then show ?case by (auto intro: lex_le_less)
next
  case (8 key v kvs spec seen y seen1)
  then have "seen \<subseteq> seen1" using seen_mono(1)[of v spec seen] by (metis snd_conv)
  then have "pending spec (\<Union>kv \<in> set kvs. refs_of (snd kv)) seen1 \<le> pending spec (\<Union>kv \<in> set ((key, v) # kvs). refs_of (snd kv)) seen"
    by (intro pending_mono) (auto simp: finite_refs_of)
  then show ?case by (auto intro: lex_le_less)
qed

termination resolveRefs
  by (rule resolveRefs_all_dom)

section \<open>Properties of the truncator\<close>

lemma ceil_div4: "nat \<lceil>real n / 4\<rceil> = (n + 3) div 4"
proof -
  have "\<lceil>real n / 4\<rceil> = int ((n + 3) div 4)"
    by (rule ceiling_unique) linarith+
  then show ?thesis by simp
qed

lemma MAX_CHARS_eq: "MAX_CHARS = 24000"
  by (simp add: MAX_CHARS_def MAX_TOKENS_def CHARS_PER_TOKEN_def)

lemma limit_text: "toLocaleString MAX_TOKENS = ''6,000''"
  by (simp add: toLocaleString_def MAX_TOKENS_def show_nat.simps digit_char_def)

lemma digit_char_not_comma: "d < 16 \<Longrightarrow> CHR '','' \<noteq> digit_char d"
proof -
  assume "d < 16"
  then have "digit_char d \<in> set ''0123456789abcdef''"
    unfolding digit_char_def by (intro nth_mem) simp
  then show ?thesis by auto
qed

lemma show_nat_no_comma: "CHR '','' \<notin> set (show_nat n)"
proof (induction n rule: show_nat.induct)
  case (1 n)
  have small: "n mod 10 < 16" by arith
  show ?case
  proof (cases "n < 10")
    case True
    then show ?thesis by (simp add: show_nat.simps[of n] digit_char_not_comma)
  next
    case False
    with 1 small show ?thesis
      by (simp add: show_nat.simps[of n] digit_char_not_comma)
  qed
qed

lemma group3_filter:
  "CHR '','' \<notin> set ds \<Longrightarrow> filter (\<lambda>c. c \<noteq> CHR '','') (group3 ds) = ds"
  by (induction ds rule: group3.induct) auto

text \<open>The digits of the printed estimate are those of the number: the commas only group them.\<close>

lemma toLocaleString_digits: "filter (\<lambda>c. c \<noteq> CHR '','') (toLocaleString n) = show_nat n"
proof -
  have "filter (\<lambda>c. c \<noteq> CHR '','') (group3 (rev (show_nat n))) = rev (show_nat n)"
    by (rule group3_filter) (simp add: show_nat_no_comma)
  then show ?thesis
    by (simp add: toLocaleString_def rev_filter[symmetric])
qed

text \<open>
  C4. For every value that has a serialized text (a string is its own text, any other value
  the text of \<^verbatim>\<open>JSON.stringify(value, null, 2)\<close>): a text of at most 24000 characters is
  returned unchanged; of a longer one the first 24000 characters are returned, followed by
  the marker, which reports the ceiling of a quarter of the length of the whole text, and
  the limit of 6,000 tokens.
\<close>

theorem truncateResponse_bounded:
  assumes "serialized_text content = Inr (Some text)"
  shows "(length text \<le> 24000 \<longrightarrow> truncateResponse content = Inr text) \<and>
         (24000 < length text \<longrightarrow>
            truncateResponse content =
              Inr (take 24000 text @ [CHR 0x0A, CHR 0x0A] @ ''--- TRUNCATED ---'' @ [CHR 0x0A]
                   @ ''Response was ~'' @ toLocaleString (nat \<lceil>real (length text) / 4\<rceil>)
                   @ '' tokens (limit: 6,000). Use more specific queries to reduce response size.''))"
  using assms
  by (simp add: truncateResponse_def MAX_CHARS_eq truncation_marker_def limit_text
      CHARS_PER_TOKEN_def)

theorem truncateResponse_bounded_witness:
  "serialized_text (JStr (replicate 100000 (CHR ''x''))) = Inr (Some (replicate 100000 (CHR ''x''))) \<and>
   truncateResponse (JStr (replicate 100000 (CHR ''x''))) =
     Inr (replicate 24000 (CHR ''x'') @ [CHR 0x0A, CHR 0x0A] @ ''--- TRUNCATED ---'' @ [CHR 0x0A]
          @ ''Response was ~25,000 tokens (limit: 6,000). Use more specific queries to reduce response size.'') \<and>
   serialized_text (JNum 42) = Inr (Some ''42'') \<and>
   truncateResponse (JNum 42) = Inr ''42''"
proof -
  have s1: "serialized_text (JStr (replicate 100000 (CHR ''x''))) = Inr (Some (replicate 100000 (CHR ''x'')))"
    by (simp add: serialized_text_def)
  have s2: "serialized_text (JNum 42) = Inr (Some ''42'')"
    by (simp add: serialized_text_def JSON_stringify_def show_int_def show_nat.simps digit_char_def)
  have t: "toLocaleString 25000 = ''25,000''"
    by (simp add: toLocaleString_def show_nat.simps digit_char_def)
  show ?thesis
    using truncateResponse_bounded[OF s1] truncateResponse_bounded[OF s2] s1 s2
    by (simp add: ceil_div4 t)
qed

text \<open>
  C9 (the truncator returns a string for every value and never fails) does not hold of the
  code. On \<^verbatim>\<open>undefined\<close> the serializer returns \<^verbatim>\<open>undefined\<close> and reading its length
  throws a \<^verbatim>\<open>TypeError\<close>; on a BigInt the serializer itself throws. Neither call returns
  a string.
\<close>

theorem truncateResponse_throws:
  "truncateResponse JUndefined =
     Inl (ErrorInst (''Cannot read properties of undefined (reading '' @ [CHR 0x27] @ ''length''
                     @ [CHR 0x27] @ '')'')) \<and>
   truncateResponse (JBigInt 1) = Inl (ErrorInst ''Do not know how to serialize a BigInt'')"
  by (simp add: truncateResponse_def serialized_text_def JSON_stringify_def cannot_read_def)

text \<open>
  Everywhere else the truncator returns a string: on every value other than
  \<^verbatim>\<open>undefined\<close> in which no BigInt occurs.
\<close>

lemma sequence_all_Inr:
  "(\<And>x. x \<in> set xs \<Longrightarrow> \<exists>r. f x = Inr r) \<Longrightarrow> \<exists>rs. sequence (map f xs) = Inr rs"
proof (induction xs)
  case Nil
  then show ?case by simp
next
  case (Cons x xs)
  then obtain r where r: "f x = Inr r" by auto
  from Cons obtain rs where "sequence (map f xs) = Inr rs" by auto
  with r show ?case by simp
qed

lemma serialize_defined:
  "\<not> has_bigint v \<Longrightarrow>
     \<exists>r. SerializeJSONProperty gap indent v = Inr r \<and> (v \<noteq> JUndefined \<longrightarrow> r \<noteq> None)"
proof (induction v arbitrary: indent)
  case (JArr xs)
  have "\<exists>rs. sequence (map (\<lambda>x. SerializeJSONProperty gap (indent @ gap) x) xs) = Inr rs"
  proof (rule sequence_all_Inr)
    fix x assume "x \<in> set xs"
    with JArr show "\<exists>r. SerializeJSONProperty gap (indent @ gap) x = Inr r"
      by (fastforce simp: list_ex_iff)
  qed
  then show ?case by auto
next
  case (JObj kvs)
  have "\<exists>rs. sequence (map (\<lambda>kv. SerializeJSONProperty gap (indent @ gap) (snd kv)) kvs) = Inr rs"
  proof (rule sequence_all_Inr)
    fix kv assume "kv \<in> set kvs"
    with JObj show "\<exists>r. SerializeJSONProperty gap (indent @ gap) (snd kv) = Inr r"
      by (cases kv) (fastforce simp: list_ex_iff)
  qed
  then show ?case by auto
qed simp_all

lemma truncateResponse_returns:
  assumes "\<not> has_bigint content" and "content \<noteq> JUndefined"
  shows "\<exists>s. truncateResponse content = Inr s"
proof -
  from assms obtain t where "serialized_text content = Inr (Some t)"
    using serialize_defined[of content "''  ''" "[]"]
    by (cases content) (auto simp: serialized_text_def JSON_stringify_def)
  then show ?thesis by (simp add: truncateResponse_def)
qed

section \<open>Properties of the account resolver\<close>

lemma includes_json: "str_includes ''application/json'' ''application/json''"
  by (simp add: str_includes_def)

lemma json_reply_simps:
  "str_includes (content_type_or_empty (json_reply data)) ''application/json''"
  "body_json (json_reply data) = Inr data"
  by (simp_all add: json_reply_def content_type_or_empty_def includes_json)

lemma account_summaries:
  assumes "list_all2 (\<lambda>a (i, n). get_prop a ''id'' = Inr (JStr i) \<and> get_prop a ''name'' = Inr (JStr n)) accounts as"
  shows "sequence (map account_summary accounts) = Inr (map (\<lambda>(i, n). i @ '' ('' @ n @ '')'') as)"
  using assms
  by (induction rule: list_all2_induct) (auto simp: account_summary_def nullish_or_def)

text \<open>
  C5, as the code has it. For a successful accounts envelope whose result lists accounts with
  a string id and a string name: an empty list fails with the no-account error; a list of one
  account whose id is not empty succeeds with that id; a list of more than one fails with the
  ambiguous-account error, whose message lists the first five at most, each as
  \<^verbatim>\<open>id (name)\<close>, joined by a comma and a space.
\<close>

theorem resolveAccountId_by_count:
  assumes "fetch (accounts_request apiBase apiToken) = Inr response"
    and "str_includes (content_type_or_empty response) ''application/json''"
    and "body_json response = Inr data"
    and "get_prop data ''success'' = Inr success" and "truthy success"
    and "get_prop data ''result'' = Inr (JArr accounts)"
    and "list_all2 (\<lambda>a (i, n). get_prop a ''id'' = Inr (JStr i) \<and> get_prop a ''name'' = Inr (JStr n)) accounts as"
  shows "(as = [] \<longrightarrow>
            resolveAccountId fetch apiBase apiToken =
              Inl (ErrorInst ''No Cloudflare accounts found for this token.'')) \<and>
         (\<forall>i n. as = [(i, n)] \<and> i \<noteq> [] \<longrightarrow>
            resolveAccountId fetch apiBase apiToken = Inr (JStr i)) \<and>
         (1 < length as \<longrightarrow>
            resolveAccountId fetch apiBase apiToken =
              Inl (ErrorInst (''Multiple Cloudflare accounts found. Provide account_id to select one. Found: ''
                     @ join '', '' (map (\<lambda>(i, n). i @ '' ('' @ n @ '')'') (take 5 as)))))"
proof -
  have len: "length accounts = length as"
    using assms(7) by (rule list_all2_lengthD)
  have base: "resolveAccountId fetch apiBase apiToken =
      (if length accounts = 0 then Inl (ErrorInst ''No Cloudflare accounts found for this token.'')
       else if length accounts = 1 \<and> truthy (first_id accounts) then Inr (first_id accounts)
       else (case sequence (map account_summary (take 5 accounts)) of
               Inl x \<Rightarrow> Inl x
             | Inr accountSummary \<Rightarrow>
                 Inl (ErrorInst
                   (''Multiple Cloudflare accounts found. Provide account_id to select one. ''
                    @ ''Found: '' @ join '', '' accountSummary))))"
    using assms(1-6) by (simp add: resolveAccountId_def)
  have none: "as = [] \<longrightarrow> resolveAccountId fetch apiBase apiToken =
              Inl (ErrorInst ''No Cloudflare accounts found for this token.'')"
    using len by (simp add: base)
  have one: "\<forall>i n. as = [(i, n)] \<and> i \<noteq> [] \<longrightarrow>
            resolveAccountId fetch apiBase apiToken = Inr (JStr i)"
  proof (intro allI impI)
    fix i n assume a: "as = [(i, n)] \<and> i \<noteq> []"
    with assms(7) obtain acc where acc: "accounts = [acc]" "get_prop acc ''id'' = Inr (JStr i)"
      by (auto simp: list_all2_Cons2)
    then have "acc \<noteq> JUndefined" "acc \<noteq> JNull" by auto
    with acc have "first_id accounts = JStr i" by (simp add: first_id_def)
    with a acc show "resolveAccountId fetch apiBase apiToken = Inr (JStr i)"
      by (simp add: base)
  qed
  have many: "1 < length as \<longrightarrow>
            resolveAccountId fetch apiBase apiToken =
              Inl (ErrorInst (''Multiple Cloudflare accounts found. Provide account_id to select one. Found: ''
                     @ join '', '' (map (\<lambda>(i, n). i @ '' ('' @ n @ '')'') (take 5 as))))"
  proof
    assume l: "1 < length as"
    have "list_all2 (\<lambda>a (i, n). get_prop a ''id'' = Inr (JStr i) \<and> get_prop a ''name'' = Inr (JStr n))
            (take 5 accounts) (take 5 as)"
      using assms(7) by (rule list_all2_takeI)
    then have "sequence (map account_summary (take 5 accounts)) =
               Inr (map (\<lambda>(i, n). i @ '' ('' @ n @ '')'') (take 5 as))"
      by (rule account_summaries)
    moreover from l len have "length accounts \<noteq> 0" "length accounts \<noteq> 1" by auto
    ultimately show "resolveAccountId fetch apiBase apiToken =
              Inl (ErrorInst (''Multiple Cloudflare accounts found. Provide account_id to select one. Found: ''
                     @ join '', '' (map (\<lambda>(i, n). i @ '' ('' @ n @ '')'') (take 5 as))))"
      by (simp add: base)
  qed
  from none one many show ?thesis by blast
qed

theorem resolveAccountId_by_count_witness:
  "resolveAccountId (answering (json_reply (accounts_envelope [account ''a1'' ''One''])))
       ''https://api'' ''tok'' = Inr (JStr ''a1'') \<and>
   resolveAccountId (answering (json_reply (accounts_envelope
       [account ''a1'' ''One'', account ''a2'' ''Two'', account ''a3'' ''Three'',
        account ''a4'' ''Four'', account ''a5'' ''Five'', account ''a6'' ''Six''])))
       ''https://api'' ''tok'' =
     Inl (ErrorInst (''Multiple Cloudflare accounts found. Provide account_id to select one. Found: ''
            @ ''a1 (One), a2 (Two), a3 (Three), a4 (Four), a5 (Five)'')) \<and>
   resolveAccountId (answering (json_reply (accounts_envelope []))) ''https://api'' ''tok'' =
     Inl (ErrorInst ''No Cloudflare accounts found for this token.'')"
proof -
  have env: "get_prop (accounts_envelope xs) ''success'' = Inr (JBool True)"
            "get_prop (accounts_envelope xs) ''result'' = Inr (JArr xs)" for xs
    by (simp_all add: accounts_envelope_def)
  have acc: "get_prop (account i n) ''id'' = Inr (JStr i) \<and> get_prop (account i n) ''name'' = Inr (JStr n)" for i n
    by (simp add: account_def)
  have one: "list_all2 (\<lambda>a (i, n). get_prop a ''id'' = Inr (JStr i) \<and> get_prop a ''name'' = Inr (JStr n))
      [account ''a1'' ''One''] [(''a1'', ''One'')]"
    by (simp add: acc)
  have six: "list_all2 (\<lambda>a (i, n). get_prop a ''id'' = Inr (JStr i) \<and> get_prop a ''name'' = Inr (JStr n))
      [account ''a1'' ''One'', account ''a2'' ''Two'', account ''a3'' ''Three'',
       account ''a4'' ''Four'', account ''a5'' ''Five'', account ''a6'' ''Six'']
      [(''a1'', ''One''), (''a2'', ''Two''), (''a3'', ''Three''), (''a4'', ''Four''),
       (''a5'', ''Five''), (''a6'', ''Six'')]"
    by (simp add: acc)
  have none: "list_all2 (\<lambda>a (i, n). get_prop a ''id'' = Inr (JStr i) \<and> get_prop a ''name'' = Inr (JStr n))
      [] ([] :: (string \<times> string) list)"
    by simp
  have f: "answering r (accounts_request ''https://api'' ''tok'') = Inr r" for r
    by (simp add: answering_def)
  have t: "list_all2 (\<lambda>a (i, n). get_prop a ''id'' = Inr (JStr i) \<and> get_prop a ''name'' = Inr (JStr n)) xs as \<Longrightarrow>
      (as = [] \<longrightarrow>
         resolveAccountId (answering (json_reply (accounts_envelope xs))) ''https://api'' ''tok'' =
           Inl (ErrorInst ''No Cloudflare accounts found for this token.'')) \<and>
      (\<forall>i n. as = [(i, n)] \<and> i \<noteq> [] \<longrightarrow>
         resolveAccountId (answering (json_reply (accounts_envelope xs))) ''https://api'' ''tok'' = Inr (JStr i)) \<and>
      (1 < length as \<longrightarrow>
         resolveAccountId (answering (json_reply (accounts_envelope xs))) ''https://api'' ''tok'' =
           Inl (ErrorInst (''Multiple Cloudflare accounts found. Provide account_id to select one. Found: ''
                  @ join '', '' (map (\<lambda>(i, n). i @ '' ('' @ n @ '')'') (take 5 as)))))" for xs as
    by (rule resolveAccountId_by_count[where fetch = "answering (json_reply (accounts_envelope xs))",
          OF f json_reply_simps(1) json_reply_simps(2) env(1) _ env(2)]) simp_all
  show ?thesis
    using t[OF one] t[OF six] t[OF none] by simp
qed

text \<open>
  C5, as stated, fails for a list of one account: the resolver returns the id only when it is
  truthy. One account with an empty id, or with none, gets the error of several accounts.
\<close>

theorem resolveAccountId_one_without_id:
  "resolveAccountId (answering (json_reply (accounts_envelope [account [] ''Acme''])))
       ''https://api.cloudflare.com/client/v4'' ''tok'' =
     Inl (ErrorInst ''Multiple Cloudflare accounts found. Provide account_id to select one. Found:  (Acme)'') \<and>
   resolveAccountId (answering (json_reply (accounts_envelope [JObj [(''name'', JStr ''Acme'')]])))
       ''https://api.cloudflare.com/client/v4'' ''tok'' =
     Inl (ErrorInst ''Multiple Cloudflare accounts found. Provide account_id to select one. Found: unknown (Acme)'')"
  by (simp add: resolveAccountId_def answering_def json_reply_simps accounts_envelope_def
      account_def first_id_def account_summary_def nullish_or_def)

text \<open>
  C10. When the envelope reports success and its result is missing or is not an array, the
  resolver fails with the error of the empty list, not with an upstream error.
\<close>

theorem resolveAccountId_result_not_array:
  assumes "fetch (accounts_request apiBase apiToken) = Inr response"
    and "str_includes (content_type_or_empty response) ''application/json''"
    and "body_json response = Inr data"
    and "get_prop data ''success'' = Inr success" and "truthy success"
    and "get_prop data ''result'' = Inr r"
    and "\<not> isArray r"
  shows "resolveAccountId fetch apiBase apiToken =
           Inl (ErrorInst ''No Cloudflare accounts found for this token.'') \<and>
         resolveAccountId (answering (json_reply (accounts_envelope []))) apiBase apiToken =
           resolveAccountId fetch apiBase apiToken"
proof -
  have "resolveAccountId fetch apiBase apiToken =
           Inl (ErrorInst ''No Cloudflare accounts found for this token.'')"
    using assms by (cases r) (simp_all add: resolveAccountId_def)
  moreover have "resolveAccountId (answering (json_reply (accounts_envelope []))) apiBase apiToken =
           Inl (ErrorInst ''No Cloudflare accounts found for this token.'')"
    by (simp add: resolveAccountId_def answering_def json_reply_simps accounts_envelope_def)
  ultimately show ?thesis by simp
qed

theorem resolveAccountId_result_not_array_witness:
  "get_prop (JObj [(''success'', JBool True)]) ''result'' = Inr JUndefined \<and>
   \<not> isArray JUndefined \<and>
   resolveAccountId (answering (json_reply (JObj [(''success'', JBool True)]))) ''https://api'' ''tok'' =
     Inl (ErrorInst ''No Cloudflare accounts found for this token.'') \<and>
   get_prop (JObj [(''success'', JBool True), (''result'', JObj [(''id'', JStr ''a1'')])]) ''result'' =
     Inr (JObj [(''id'', JStr ''a1'')]) \<and>
   \<not> isArray (JObj [(''id'', JStr ''a1'')]) \<and>
   resolveAccountId (answering (json_reply
       (JObj [(''success'', JBool True), (''result'', JObj [(''id'', JStr ''a1'')])]))) ''https://api'' ''tok'' =
     Inl (ErrorInst ''No Cloudflare accounts found for this token.'')"
proof -
  have f: "answering r (accounts_request ''https://api'' ''tok'') = Inr r" for r
    by (simp add: answering_def)
  have t: "get_prop d ''success'' = Inr (JBool True) \<Longrightarrow> get_prop d ''result'' = Inr r \<Longrightarrow>
      \<not> isArray r \<Longrightarrow>
      resolveAccountId (answering (json_reply d)) ''https://api'' ''tok'' =
        Inl (ErrorInst ''No Cloudflare accounts found for this token.'')" for d r
    using resolveAccountId_result_not_array[where fetch = "answering (json_reply d)"
        and success = "JBool True", OF f json_reply_simps(1) json_reply_simps(2)]
    by simp
  show ?thesis
    using t[of "JObj [(''success'', JBool True)]" JUndefined]
      t[of "JObj [(''success'', JBool True), (''result'', JObj [(''id'', JStr ''a1'')])]"
        "JObj [(''id'', JStr ''a1'')]"]
    by simp
qed

section \<open>Properties of the gateway and of the execution unit\<close>

lemma interpolate_json_string: "interpolate_json (JStr s) = Inr (QuoteJSONString s)"
  by (simp add: interpolate_json_def JSON_stringify_compact_def)

lemma build_recipe_strings:
  "build_recipe (JStr base) (JStr acc) code =
     Inr \<lparr>compatibilityDate = ''2026-01-12'', compatibilityFlags = [''nodejs_compat''],
          mainModule = ''worker.js'',
          modules = [(''worker.js'', module_head @ QuoteJSONString base @ module_between
                        @ QuoteJSONString acc @ module_body @ code @ module_tail)]\<rparr>"
  by (simp add: build_recipe_def module_source_def interpolate_json_string)

text \<open>The gateway around a unit that runs the module with a script of behaviour \<open>body\<close>.\<close>

lemma executeCode_unit:
  assumes "build_recipe (CLOUDFLARE_API_BASE e) a code = Inr wc"
    and "LOADER e (''cloudflare-api-'' @ uuid) wc = evaluate rt (CLOUDFLARE_API_BASE e) a body"
  shows "executeCode e uuid code a tok =
     (case body \<lparr>sc_apiBase = CLOUDFLARE_API_BASE e, sc_accountId = a, sc_apiToken = tok,
                 sc_request = request rt (CLOUDFLARE_API_BASE e) tok\<rparr> of
        Inr r \<Rightarrow> Inr r
      | Inl x \<Rightarrow>
          (case message_of x of
             Inl y \<Rightarrow> Inl y
           | Inr m \<Rightarrow> if truthy m then Inl (ErrorInst (ToString m)) else Inr JUndefined))"
  using assms
  by (simp add: executeCode_def submit_def evaluate_def Let_def split: sum.splits)

text \<open>
  C1, as the code has it. The build recipe is a function of the configured API base, the
  account id and the script text only: its module is the fixed module text with the
  serialized API base, the serialized account id and the script text inserted (or the
  exception of a serialization), so it is the same for any two credentials. The identity of
  the unit is \<^verbatim>\<open>cloudflare-api-\<close> followed by the random token. The credential is the
  argument of the call of \<^verbatim>\<open>evaluate\<close>, and reaches the unit through that argument only: a
  provisioning capability that ignores the argument makes the gateway return the same for
  any two credentials.
\<close>

theorem recipe_independent_of_credential:
  "recipe (submit e uuid code accountId t1) = recipe (submit e uuid code accountId t2) \<and>
   recipe (submit e uuid code accountId t1) =
     (case interpolate_json (CLOUDFLARE_API_BASE e) of
        Inl x \<Rightarrow> Inl x
      | Inr baseText \<Rightarrow>
          (case interpolate_json accountId of
             Inl x \<Rightarrow> Inl x
           | Inr accountText \<Rightarrow>
               Inr \<lparr>compatibilityDate = ''2026-01-12'', compatibilityFlags = [''nodejs_compat''],
                    mainModule = ''worker.js'',
                    modules = [(''worker.js'',
                      module_head @ baseText @ module_between @ accountText @ module_body @ code
                      @ module_tail)]\<rparr>)) \<and>
   workerId (submit e uuid code accountId t1) = ''cloudflare-api-'' @ uuid \<and>
   evaluate_arg (submit e uuid code accountId t1) = t1 \<and>
   ((\<forall>wid wc x y. LOADER e wid wc x = LOADER e wid wc y) \<longrightarrow>
      executeCode e uuid code accountId t1 = executeCode e uuid code accountId t2)"
proof -
  have "executeCode e uuid code accountId t1 = executeCode e uuid code accountId t2"
    if "\<forall>wid wc x y. LOADER e wid wc x = LOADER e wid wc y"
  proof -
    from that have "LOADER e wid wc t1 = LOADER e wid wc t2" for wid wc by blast
    then show ?thesis by (simp add: executeCode_def submit_def Let_def cong: sum.case_cong)
  qed
  then show ?thesis
    by (simp add: submit_def build_recipe_def module_source_def split: sum.splits)
qed

theorem recipe_independent_of_credential_witness:
  "(\<forall>wid wc x y.
      LOADER \<lparr>CLOUDFLARE_API_BASE = JStr ''https://api'',
              LOADER = (\<lambda>wid wc arg. Inr \<lparr>result = JNum 1, err = JUndefined\<rparr>)\<rparr> wid wc x =
      LOADER \<lparr>CLOUDFLARE_API_BASE = JStr ''https://api'',
              LOADER = (\<lambda>wid wc arg. Inr \<lparr>result = JNum 1, err = JUndefined\<rparr>)\<rparr> wid wc y) \<and>
   executeCode \<lparr>CLOUDFLARE_API_BASE = JStr ''https://api'',
                LOADER = (\<lambda>wid wc arg. Inr \<lparr>result = JNum 1, err = JUndefined\<rparr>)\<rparr>
       ''0000'' ''async () => 1'' (JStr ''acc'') ''token-one'' =
   executeCode \<lparr>CLOUDFLARE_API_BASE = JStr ''https://api'',
                LOADER = (\<lambda>wid wc arg. Inr \<lparr>result = JNum 1, err = JUndefined\<rparr>)\<rparr>
       ''0000'' ''async () => 1'' (JStr ''acc'') ''token-two''"
  using recipe_independent_of_credential[of
      "\<lparr>CLOUDFLARE_API_BASE = JStr ''https://api'',
        LOADER = (\<lambda>wid wc arg. Inr \<lparr>result = JNum 1, err = JUndefined\<rparr>)\<rparr>"
      "''0000''" "''async () => 1''" "JStr ''acc''" "''token-one''" "''token-two''"]
  by simp

text \<open>
  C1, as stated, fails: the recipe is not searched for the credential. It holds the script
  text as it is, so it contains the credential whenever the script spells it out.
\<close>

theorem recipe_contains_credential:
  \<open>recipe (submit \<lparr>CLOUDFLARE_API_BASE = JStr ''https://api.cloudflare.com/client/v4'',
                    LOADER = (\<lambda>wid wc arg. Inl (ErrorInst []))\<rparr>
            ''0000'' ''async () => "s3cret"'' (JStr ''acc'') ''s3cret'') =
     Inr \<lparr>compatibilityDate = ''2026-01-12'', compatibilityFlags = [''nodejs_compat''],
          mainModule = ''worker.js'',
          modules = [(''worker.js'',
            module_head @ QuoteJSONString ''https://api.cloudflare.com/client/v4'' @ module_between
            @ QuoteJSONString ''acc'' @ module_body @ ''async () => "s3cret"'' @ module_tail)]\<rparr> \<and>
   str_includes (module_head @ QuoteJSONString ''https://api.cloudflare.com/client/v4'' @ module_between
            @ QuoteJSONString ''acc'' @ module_body @ ''async () => "s3cret"'' @ module_tail) ''s3cret''\<close>
proof -
  have "sublist ''s3cret''
          ((module_head @ QuoteJSONString ''https://api.cloudflare.com/client/v4'' @ module_between
            @ QuoteJSONString ''acc'' @ module_body @ ''async () => '' @ [CHR 0x22])
           @ ''s3cret'' @ ([CHR 0x22] @ module_tail))"
    by (rule sublist_appendI)
  then show ?thesis
    by (simp add: submit_def build_recipe_strings str_includes_def)
qed

text \<open>
  C2 (a script that throws makes the gateway raise a failure with the message; result and
  error exclude each other in every case) does not hold of the code. A script that throws an
  error with an empty message, or a value that has no message, makes the unit return a
  record whose error is empty or absent, and the gateway returns \<^verbatim>\<open>undefined\<close> as if the
  script had succeeded: no failure is raised.
\<close>

theorem thrown_without_message_is_swallowed:
  "evaluate rt (JStr base) (JStr acc) (\<lambda>sc. Inl (ErrorInst [])) tok =
     Inr \<lparr>result = JUndefined, err = JStr []\<rparr> \<and>
   executeCode (unit_env (JStr base) rt (JStr acc) (\<lambda>sc. Inl (ErrorInst []))) uuid code (JStr acc) tok =
     Inr JUndefined \<and>
   evaluate rt (JStr base) (JStr acc) (\<lambda>sc. Inl (NonError (JStr ''boom''))) tok =
     Inr \<lparr>result = JUndefined, err = JUndefined\<rparr> \<and>
   executeCode (unit_env (JStr base) rt (JStr acc) (\<lambda>sc. Inl (NonError (JStr ''boom'')))) uuid code (JStr acc) tok =
     Inr JUndefined"
  by (simp add: executeCode_def submit_def unit_env_def build_recipe_strings evaluate_def message_of_def)

text \<open>
  The two regular outcomes: a script that returns \<open>v\<close> gives the record with that result and
  the gateway returns \<open>v\<close>; a script that throws an error with a message that is not empty
  gives the record with that message and the gateway raises an error with it.
\<close>

lemma gateway_outcomes:
  assumes "build_recipe (CLOUDFLARE_API_BASE e) a code = Inr wc"
    and "LOADER e (''cloudflare-api-'' @ uuid) wc = evaluate rt (CLOUDFLARE_API_BASE e) a body"
  shows "body \<lparr>sc_apiBase = CLOUDFLARE_API_BASE e, sc_accountId = a, sc_apiToken = tok,
               sc_request = request rt (CLOUDFLARE_API_BASE e) tok\<rparr> = Inr v \<Longrightarrow>
         evaluate rt (CLOUDFLARE_API_BASE e) a body tok = Inr \<lparr>result = v, err = JUndefined\<rparr> \<and>
         executeCode e uuid code a tok = Inr v"
    and "body \<lparr>sc_apiBase = CLOUDFLARE_API_BASE e, sc_accountId = a, sc_apiToken = tok,
               sc_request = request rt (CLOUDFLARE_API_BASE e) tok\<rparr> = Inl (ErrorInst m) \<Longrightarrow> m \<noteq> [] \<Longrightarrow>
         evaluate rt (CLOUDFLARE_API_BASE e) a body tok = Inr \<lparr>result = JUndefined, err = JStr m\<rparr> \<and>
         executeCode e uuid code a tok = Inl (ErrorInst m)"
  using executeCode_unit[OF assms, of tok]
  by (simp_all add: evaluate_def message_of_def)

text \<open>
  C7, as the code has it. A response whose content type does not include
  \<^verbatim>\<open>application/json\<close>: on a success status the request capability returns the envelope
  \<^verbatim>\<open>{ success: true, result: text }\<close> that holds the body text; on any other status it throws
  an error whose message holds the status code and the body text.
\<close>

theorem request_non_json:
  assumes "outgoing rt apiBase apiToken options = Inr req"
    and "rt_fetch rt req = Inr response"
    and "\<not> str_includes (content_type_or_empty response) ''application/json''"
  shows "(ok response \<longrightarrow>
            request rt apiBase apiToken options =
              Inr (JObj [(''success'', JBool True), (''result'', JStr (body_text response))])) \<and>
         (\<not> ok response \<longrightarrow>
            request rt apiBase apiToken options =
              Inl (ErrorInst (''Cloudflare API error: '' @ show_nat (status response) @ '' ''
                              @ body_text response)))"
  using assms by (simp add: request_def read_response_def)

lemma not_json_text_plain: "\<not> str_includes ''text/plain'' ''application/json''"
  by (simp add: str_includes_def sublist_code)

lemma serving_fetch: "rt_fetch (serving response) req = Inr response"
  by (simp add: serving_def answering_def)

lemma outgoing_get:
  "outgoing (serving response) apiBase apiToken (get_options path) =
     Inr \<lparr>req_url = ToString apiBase @ path, req_search = [], req_method = ''GET'',
          req_headers = [(''Authorization'', ''Bearer '' @ apiToken)], req_body = JUndefined\<rparr>"
  by (simp add: outgoing_def serving_def get_options_def request_body_def search_params_def
      request_headers_def)

theorem request_non_json_witness:
  "request (serving (text_reply 200 ''hello'')) (JStr ''https://api'') ''tok'' (get_options ''/kv/key'') =
     Inr (JObj [(''success'', JBool True), (''result'', JStr ''hello'')]) \<and>
   request (serving (text_reply 404 ''key not found'')) (JStr ''https://api'') ''tok'' (get_options ''/kv/key'') =
     Inl (ErrorInst ''Cloudflare API error: 404 key not found'')"
proof -
  have f: "rt_fetch (serving r) q = Inr r" for r q by (simp add: serving_def answering_def)
  have c: "\<not> str_includes (content_type_or_empty (text_reply n b)) ''application/json''" for n b
    by (simp add: text_reply_def content_type_or_empty_def not_json_text_plain)
  have s: "show_nat 404 = ''404''" by (simp add: show_nat.simps digit_char_def)
  have t: "(ok (text_reply n b) \<longrightarrow>
              request (serving (text_reply n b)) (JStr ''https://api'') ''tok'' (get_options ''/kv/key'') =
                Inr (JObj [(''success'', JBool True), (''result'', JStr (body_text (text_reply n b)))])) \<and>
           (\<not> ok (text_reply n b) \<longrightarrow>
              request (serving (text_reply n b)) (JStr ''https://api'') ''tok'' (get_options ''/kv/key'') =
                Inl (ErrorInst (''Cloudflare API error: '' @ show_nat (status (text_reply n b)) @ '' ''
                                @ body_text (text_reply n b))))" for n b
    by (rule request_non_json[OF outgoing_get f c])
  show ?thesis
    using t[of 200 "''hello''"] t[of 404 "''key not found''"]
    by (simp add: ok_def text_reply_def s)
qed

text \<open>
  C7, as stated, fails on a success status: what the caller script receives is not the body
  text but an object around it.
\<close>

theorem request_text_is_wrapped:
  "request (serving (text_reply 200 ''hello'')) (JStr ''https://api'') ''tok'' (get_options ''/kv/key'') \<noteq>
     Inr (JStr ''hello'')"
  by (simp add: request_def outgoing_get serving_fetch read_response_def text_reply_def
      content_type_or_empty_def not_json_text_plain ok_def)

lemma show_int_10000: "show_int 10000 = ''10000''"
  by (simp add: show_int_def show_nat.simps digit_char_def)

text \<open>
  C8. A caller script that invokes the request capability and does not handle its failure,
  against an upstream that answers with the JSON envelope of a failed authentication (code
  10000, message \<^verbatim>\<open>Authentication error\<close>): the execute tool returns the text
  \<^verbatim>\<open>Error: Cloudflare API error: 10000: Authentication error\<close> with the error flag set, in
  the mode that resolves the account and in the mode with a fixed account.
\<close>

theorem execute_reports_upstream_error:
  assumes "build_recipe (CLOUDFLARE_API_BASE e) a code = Inr wc"
    and "LOADER e (''cloudflare-api-'' @ uuid) wc = evaluate rt (CLOUDFLARE_API_BASE e) a body"
    and "\<And>sc x. sc_request sc options = Inl x \<Longrightarrow> body sc = Inl x"
    and "outgoing rt (CLOUDFLARE_API_BASE e) apiToken options = Inr req"
    and "rt_fetch rt req = Inr response"
    and "str_includes (content_type_or_empty response) ''application/json''"
    and "body_json response = Inr data"
    and "get_prop data ''success'' = Inr (JBool False)"
    and "get_prop data ''errors'' = Inr (JArr [error])"
    and "get_prop error ''code'' = Inr (JNum 10000)"
    and "get_prop error ''message'' = Inr (JStr ''Authentication error'')"
  shows "(resolvedAccountId e sfetch apiToken account_id = Inr a \<and> truthy a \<longrightarrow>
            execute_auto e sfetch uuid apiToken code account_id =
              \<lparr>content_text = ''Error: Cloudflare API error: 10000: Authentication error'',
               isError = True\<rparr>) \<and>
         (\<forall>acc. a = JStr acc \<longrightarrow>
            execute_fixed e uuid apiToken acc code =
              \<lparr>content_text = ''Error: Cloudflare API error: 10000: Authentication error'',
               isError = True\<rparr>)"
proof -
  have lines: "error_lines data = Inr ''10000: Authentication error''"
    using assms(9-11) by (simp add: error_lines_def error_line_def show_int_10000)
  have req: "request rt (CLOUDFLARE_API_BASE e) apiToken options =
               Inl (ErrorInst ''Cloudflare API error: 10000: Authentication error'')"
    using assms(4-8) lines by (simp add: request_def read_response_def)
  have "body \<lparr>sc_apiBase = CLOUDFLARE_API_BASE e, sc_accountId = a, sc_apiToken = apiToken,
               sc_request = request rt (CLOUDFLARE_API_BASE e) apiToken\<rparr> =
          Inl (ErrorInst ''Cloudflare API error: 10000: Authentication error'')"
    by (rule assms(3)) (simp add: req)
  then have gw: "executeCode e uuid code a apiToken =
                 Inl (ErrorInst ''Cloudflare API error: 10000: Authentication error'')"
    using gateway_outcomes(2)[OF assms(1,2)] by simp
  show ?thesis
    using gw by (auto simp: execute_auto_def execute_fixed_def tool_reply_def formatError_def)
qed

theorem execute_reports_upstream_error_witness:
  "resolvedAccountId
     (unit_env (JStr ''https://api'') (serving auth_failure) (JStr ''acc'')
        (\<lambda>sc. sc_request sc (get_options ''/user'')))
     (answering auth_failure) ''tok'' (Some ''acc'') = Inr (JStr ''acc'') \<and>
   truthy (JStr ''acc'') \<and>
   execute_auto
     (unit_env (JStr ''https://api'') (serving auth_failure) (JStr ''acc'')
        (\<lambda>sc. sc_request sc (get_options ''/user'')))
     (answering auth_failure) ''0000'' ''tok''
     ''async () => cloudflare.request({ method: GET, path: /user })'' (Some ''acc'') =
     \<lparr>content_text = ''Error: Cloudflare API error: 10000: Authentication error'', isError = True\<rparr> \<and>
   execute_fixed
     (unit_env (JStr ''https://api'') (serving auth_failure) (JStr ''acc'')
        (\<lambda>sc. sc_request sc (get_options ''/user'')))
     ''0000'' ''tok'' ''acc''
     ''async () => cloudflare.request({ method: GET, path: /user })'' =
     \<lparr>content_text = ''Error: Cloudflare API error: 10000: Authentication error'', isError = True\<rparr>"
proof -
  let ?e = "unit_env (JStr ''https://api'') (serving auth_failure) (JStr ''acc'')
        (\<lambda>sc. sc_request sc (get_options ''/user''))"
  have b: "CLOUDFLARE_API_BASE ?e = JStr ''https://api''" by (simp add: unit_env_def)
  have r: "build_recipe (CLOUDFLARE_API_BASE ?e) (JStr ''acc'') code = Inr
     \<lparr>compatibilityDate = ''2026-01-12'', compatibilityFlags = [''nodejs_compat''],
          mainModule = ''worker.js'',
          modules = [(''worker.js'', module_head @ QuoteJSONString ''https://api'' @ module_between
                        @ QuoteJSONString ''acc'' @ module_body @ code @ module_tail)]\<rparr>" for code
    unfolding b by (rule build_recipe_strings)
  have l: "LOADER ?e wid wc = evaluate (serving auth_failure) (CLOUDFLARE_API_BASE ?e) (JStr ''acc'')
        (\<lambda>sc. sc_request sc (get_options ''/user''))" for wid wc
    by (simp add: unit_env_def)
  have f: "rt_fetch (serving auth_failure) q = Inr auth_failure" for q
    by (simp add: serving_def answering_def)
  have c: "str_includes (content_type_or_empty auth_failure) ''application/json''"
    by (simp add: auth_failure_def content_type_or_empty_def includes_json)
  have j: "body_json auth_failure = Inr (JObj [(''success'', JBool False),
                             (''errors'', JArr [JObj [(''code'', JNum 10000),
                                                       (''message'', JStr ''Authentication error'')]])])"
    by (simp add: auth_failure_def)
  have a: "resolvedAccountId ?e (answering auth_failure) ''tok'' (Some ''acc'') = Inr (JStr ''acc'')"
    by (simp add: resolvedAccountId_def)
  have o: "outgoing (serving auth_failure) (CLOUDFLARE_API_BASE ?e) ''tok'' (get_options ''/user'') =
     Inr \<lparr>req_url = ToString (CLOUDFLARE_API_BASE ?e) @ ''/user'', req_search = [], req_method = ''GET'',
          req_headers = [(''Authorization'', ''Bearer '' @ ''tok'')], req_body = JUndefined\<rparr>"
    by (rule outgoing_get)
  have t: "(resolvedAccountId ?e (answering auth_failure) ''tok'' (Some ''acc'') = Inr (JStr ''acc'') \<and>
            truthy (JStr ''acc'') \<longrightarrow>
              execute_auto ?e (answering auth_failure) ''0000'' ''tok''
                ''async () => cloudflare.request({ method: GET, path: /user })'' (Some ''acc'') =
              \<lparr>content_text = ''Error: Cloudflare API error: 10000: Authentication error'',
               isError = True\<rparr>) \<and>
           (\<forall>acc. JStr ''acc'' = JStr acc \<longrightarrow>
              execute_fixed ?e ''0000'' ''tok'' acc
                ''async () => cloudflare.request({ method: GET, path: /user })'' =
              \<lparr>content_text = ''Error: Cloudflare API error: 10000: Authentication error'',
               isError = True\<rparr>)"
    by (rule execute_reports_upstream_error[where options = "get_options ''/user''"
          and rt = "serving auth_failure", OF r l _ o f c j]) simp+
  show ?thesis
    using t a by simp
qed

section \<open>Properties of the reference resolver\<close>

text \<open>The set only grows: nothing removes a pointer from it.\<close>

lemma seen_never_shrinks: "seen \<subseteq> snd (resolveRefs obj spec seen)"
  using resolveRefs_all_dom by (intro seen_mono(1)) simp

lemma pointer_parts_a: "pointer_parts ''#/a'' = [''a'']" "pointer_parts ''#/b'' = [''b'']"
  by (simp_all add: pointer_parts_def)

text \<open>
  C3. The resolver terminates on every value, document and set of pointers, documents with
  reference cycles included: every input is in the domain on which the recursion is
  well-founded (and \<open>resolveRefs\<close> is a total function by that proof). A reference node
  (an object whose \<^verbatim>\<open>$ref\<close> is a string) whose pointer is already in the set is replaced by
  the object \<^verbatim>\<open>{ $circular: ref }\<close> that carries that pointer, and is not expanded: the set
  comes back unchanged.
\<close>

theorem resolveRefs_terminates_with_sentinel:
  "resolveRefs_resolveItems_resolveEntries_dom (Inl (obj, spec, seen)) \<and>
   (map_of kvs ''$ref'' = Some (JStr ref) \<and> ref \<in> seen \<longrightarrow>
      resolveRefs (JObj kvs) spec seen = (JObj [(''$circular'', JStr ref)], seen))"
  using resolveRefs_all_dom by (simp add: ref_of_def circular_def)

theorem resolveRefs_terminates_with_sentinel_witness:
  "resolveRefs_resolveItems_resolveEntries_dom
     (Inl (JObj [(''$ref'', JStr ''#/a'')],
           JObj [(''a'', JObj [(''$ref'', JStr ''#/b'')]), (''b'', JObj [(''$ref'', JStr ''#/a'')])],
           {''#/b'', ''#/a''})) \<and>
   map_of [(''$ref'', JStr ''#/a'')] ''$ref'' = Some (JStr ''#/a'') \<and> ''#/a'' \<in> {''#/b'', ''#/a''} \<and>
   resolveRefs (JObj [(''$ref'', JStr ''#/a'')])
     (JObj [(''a'', JObj [(''$ref'', JStr ''#/b'')]), (''b'', JObj [(''$ref'', JStr ''#/a'')])])
     {''#/b'', ''#/a''} = (JObj [(''$circular'', JStr ''#/a'')], {''#/b'', ''#/a''}) \<and>
   resolveRefs (JObj [(''$ref'', JStr ''#/a'')])
     (JObj [(''a'', JObj [(''$ref'', JStr ''#/b'')]), (''b'', JObj [(''$ref'', JStr ''#/a'')])])
     {} = (JObj [(''$circular'', JStr ''#/a'')], {''#/b'', ''#/a''}) \<and>
   resolveRefs (JObj [(''items'', JObj [(''$ref'', JStr ''#/a'')])])
     (JObj [(''a'', JObj [(''items'', JObj [(''$ref'', JStr ''#/a'')])])])
     {} = (JObj [(''items'', JObj [(''items'', JObj [(''$circular'', JStr ''#/a'')])])], {''#/a''})"
  using resolveRefs_terminates_with_sentinel[where obj = "JObj [(''$ref'', JStr ''#/a'')]"
      and seen = "{''#/b'', ''#/a''}" and kvs = "[(''$ref'', JStr ''#/a'')]" and ref = "''#/a''"
      and spec = "JObj [(''a'', JObj [(''$ref'', JStr ''#/b'')]), (''b'', JObj [(''$ref'', JStr ''#/a'')])]"]
  by (simp add: ref_of_def circular_def pointer_parts_a walk_def)

text \<open>
  C6 (a pointer resolved in a completed sibling branch is resolved again normally) does not
  hold of the code. The set is not scoped to the chain of ancestors: a pointer stays in it
  after its resolution has completed. Two sibling items refer to the same schema, which
  refers to nothing; the first is resolved, the second is replaced by the cycle sentinel.
\<close>

theorem sibling_reference_marked_circular:
  "resolveRefs
     (JArr [JObj [(''schema'', JObj [(''$ref'', JStr ''#/a'')])],
            JObj [(''schema'', JObj [(''$ref'', JStr ''#/a'')])]])
     (JObj [(''a'', JObj [(''type'', JStr ''string'')])]) {} =
   (JArr [JObj [(''schema'', JObj [(''type'', JStr ''string'')])],
          JObj [(''schema'', JObj [(''$circular'', JStr ''#/a'')])]],
    {''#/a''})"
  by (simp add: ref_of_def circular_def pointer_parts_a walk_def)

end
